theory Spec2Isabelle
  imports Main
begin

section \<open>Apollo API client: the command-line script \<open>apo_docopt.py\<close>\<close>

text \<open>
  The script reads an API key from the file \<open>api_key.key\<close>, parses its command line with
  docopt and runs one of four handlers, each of which posts JSON to the remote service and
  prints what comes back. Everything the script does to the outside world (file-system
  queries, HTTP requests, console output, log records) is kept, in order, as a list of
  events; an exception is a value of type \<open>exn\<close> returned on the left of a sum.
\<close>

subsection \<open>Python values and exceptions\<close>

text \<open>
  JSON-shaped Python values: request bodies, decoded responses and the cells of a table
  row. A float is kept by its literal, since nothing here computes with it.
\<close>

datatype pyval =
    PNone
  | PBool bool
  | PInt int
  | PFloat string
  | PStr string
  | PList "pyval list"
  | PDict "(string \<times> pyval) list"

text \<open>
  The exception classes the script's \<open>except\<close> clauses tell apart, each with its message;
  \<open>OtherException\<close> stands for every other subclass of \<open>Exception\<close>.
\<close>

datatype exn =
    FileNotFoundError string
  | ValueError string
  | HTTPError string
  | OtherException string

fun str_exn :: "exn \<Rightarrow> string" where
  "str_exn (FileNotFoundError m) = m"
| "str_exn (ValueError m) = m"
| "str_exn (HTTPError m) = m"
| "str_exn (OtherException m) = m"

text \<open>Python's \<open>str\<close> of an integer, in decimal.\<close>

fun str_nat :: "nat \<Rightarrow> string" where
  "str_nat n =
     (if n < 10 then [''0123456789'' ! n]
      else str_nat (n div 10) @ [''0123456789'' ! (n mod 10)])"

declare str_nat.simps [simp del]

definition str_int :: "int \<Rightarrow> string" where
  "str_int i = (if i < 0 then CHR ''-'' # str_nat (nat (- i)) else str_nat (nat i))"

subsection \<open>Requests, responses, events\<close>

type_synonym row = "(string \<times> pyval) list"

record request =
  url :: string
  headers :: "(string \<times> string) list"
  json :: pyval

text \<open>
  A response of the \<open>requests\<close> library: \<open>json_result\<close> is what \<open>response.json()\<close>
  returns or raises, \<open>body_text\<close> is \<open>response.text\<close>, \<open>resp_url\<close> is \<open>response.url\<close>.
\<close>

record response =
  status_code :: int
  reason :: string
  resp_url :: string
  body_text :: string
  json_result :: "exn + pyval"

datatype event =
    Exists string
  | ReadFile string
  | ReadCsv string
  | Post request
  | Print string
  | LogError string

text \<open>
  The world outside the script. \<open>path_exists\<close> is \<open>os.path.exists\<close>; \<open>read_text\<close> is what
  \<open>open(p).read()\<close> returns (a list of code points below 256) or raises: the file may be
  a directory, unreadable or not decodable;
  \<open>read_csv\<close> is \<open>pandas.read_csv\<close> on a path, returning the data rows in file order
  (each as the column-to-cell pairs of \<open>row.to_dict()\<close>) or raising; \<open>post n\<close> is what
  \<open>requests.post\<close> returns or raises when \<open>n\<close> requests have been made before it.
  \<open>json_dumps\<close> is \<open>json.dumps\<close> with its \<open>indent\<close>, \<open>py_str\<close> is \<open>str\<close> of a decoded
  value and \<open>str_row\<close> is \<open>str\<close> of a table row, which shows the cells and the position of
  the row in the table.
\<close>

record world =
  path_exists :: "string \<Rightarrow> bool"
  read_text :: "string \<Rightarrow> exn + string"
  read_csv :: "string \<Rightarrow> exn + row list"
  post :: "nat \<Rightarrow> request \<Rightarrow> exn + response"
  json_dumps :: "nat \<Rightarrow> pyval \<Rightarrow> string"
  py_str :: "pyval \<Rightarrow> string"
  str_row :: "nat \<Rightarrow> row \<Rightarrow> string"

fun posts :: "event list \<Rightarrow> request list" where
  "posts [] = []"
| "posts (Post r # t) = r # posts t"
| "posts (_ # t) = posts t"

fun is_log :: "event \<Rightarrow> bool" where
  "is_log (LogError _) = True"
| "is_log _ = False"

fun prints_prefix :: "string \<Rightarrow> event \<Rightarrow> bool" where
  "prints_prefix p (Print s) = (take (length p) s = p)"
| "prints_prefix p _ = False"

text \<open>\<open>printed p t\<close>: some line printed in \<open>t\<close> starts with \<open>p\<close>.\<close>

definition printed :: "string \<Rightarrow> event list \<Rightarrow> bool" where
  "printed p t = list_ex (prints_prefix p) t"

subsection \<open>Library behaviour the script relies on\<close>

text \<open>
  \<open>str.strip()\<close> removes the white space at both ends. The white-space characters below
  code point 256 are the ASCII ones (tab to carriage return, the four separators
  \<open>0x1C\<close> to \<open>0x1F\<close>, the space), \<open>0x85\<close> and \<open>0xA0\<close>.
\<close>

definition isspace :: "char \<Rightarrow> bool" where
  "isspace c =
     (c \<in> {CHR 0x09, CHR 0x0A, CHR 0x0B, CHR 0x0C, CHR 0x0D, CHR 0x1C, CHR 0x1D,
            CHR 0x1E, CHR 0x1F, CHR 0x20, CHR 0x85, CHR 0xA0})"

definition lstrip :: "string \<Rightarrow> string" where
  "lstrip s = dropWhile isspace s"

definition rstrip :: "string \<Rightarrow> string" where
  "rstrip s = rev (dropWhile isspace (rev s))"

definition strip :: "string \<Rightarrow> string" where
  "strip s = rstrip (lstrip s)"

text \<open>
  \<open>Response.raise_for_status()\<close> of the \<open>requests\<close> library: a status from 400 to 499 is a
  client error, one from 500 to 599 a server error, and both raise \<open>HTTPError\<close>.
\<close>

definition raise_for_status :: "response \<Rightarrow> exn option" where
  "raise_for_status r =
     (if 400 \<le> status_code r \<and> status_code r < 500 then
        Some (HTTPError (str_int (status_code r) @ '' Client Error: '' @ reason r
                          @ '' for url: '' @ resp_url r))
      else if 500 \<le> status_code r \<and> status_code r < 600 then
        Some (HTTPError (str_int (status_code r) @ '' Server Error: '' @ reason r
                          @ '' for url: '' @ resp_url r))
      else None)"

subsection \<open>The script\<close>

definition BASE_URL :: string where
  "BASE_URL = ''https://api.apollo.io/v1''"

definition API_KEY_FILE :: string where
  "API_KEY_FILE = ''api_key.key''"

definition read_api_key :: "world \<Rightarrow> event list \<times> (exn + string)" where
  "read_api_key w =
     (if \<not> path_exists w ''api_key.key'' then
        ([Exists ''api_key.key'', LogError ''API key file 'api_key.key' not found.''],
         Inl (FileNotFoundError ''API key file 'api_key.key' not found.''))
      else
        (case read_text w ''api_key.key'' of
           Inl e \<Rightarrow> ([Exists ''api_key.key'', ReadFile ''api_key.key''], Inl e)
         | Inr content \<Rightarrow>
             ([Exists ''api_key.key'', ReadFile ''api_key.key''], Inr (strip content))))"

text \<open>
  The two \<open>except\<close> clauses of \<open>upload_data\<close>, of the \<open>company\<close> branch and of the \<open>create\<close>
  branch build the same message: \<open>HTTPError\<close> first, then any other \<open>Exception\<close>.
\<close>

fun error_message :: "exn \<Rightarrow> string" where
  "error_message (HTTPError m) = ''HTTP error occurred: '' @ m"
| "error_message e = ''An error occurred: '' @ str_exn e"

text \<open>
  One turn of the loop of \<open>upload_data\<close>, for row \<open>k\<close> of the table; the handlers log first
  and print second. The loop is the first code of the process to post, so \<open>k\<close> requests
  have been made before the one for row \<open>k\<close>.
\<close>

definition upload_row ::
  "world \<Rightarrow> string \<Rightarrow> (string \<times> string) list \<Rightarrow> nat \<Rightarrow> row \<Rightarrow> event list" where
  "upload_row w u hdrs k r =
     Post \<lparr>url = u, headers = hdrs, json = PDict r\<rparr> #
     (case post w k \<lparr>url = u, headers = hdrs, json = PDict r\<rparr> of
        Inl e \<Rightarrow> [LogError (error_message e), Print (error_message e)]
      | Inr resp \<Rightarrow>
          (case raise_for_status resp of
             Some e \<Rightarrow> [LogError (error_message e), Print (error_message e)]
           | None \<Rightarrow> [Print (''Successfully uploaded: '' @ str_row w k r)]))"

fun upload_rows ::
  "world \<Rightarrow> string \<Rightarrow> (string \<times> string) list \<Rightarrow> nat \<Rightarrow> row list \<Rightarrow> event list" where
  "upload_rows w u hdrs k [] = []"
| "upload_rows w u hdrs k (r # rs) = upload_row w u hdrs k r @ upload_rows w u hdrs (Suc k) rs"

text \<open>The message \<^verbatim>\<open>f"CSV file '{file_path}' not found."\<close>.\<close>

definition csv_not_found :: "string \<Rightarrow> string" where
  "csv_not_found file_path = ''CSV file '' @ [CHR 0x27] @ file_path @ [CHR 0x27] @ '' not found.''"

text \<open>
  \<open>upload_data\<close> reads the global \<open>headers\<close>; here they are an argument. It is the first
  code of the process to post, so its first request is number 0.
\<close>

definition upload_data ::
  "world \<Rightarrow> (string \<times> string) list \<Rightarrow> string \<Rightarrow> string \<Rightarrow> event list \<times> (exn + unit)" where
  "upload_data w hdrs file_path data_type =
     (if \<not> path_exists w file_path then
        ([Exists file_path, LogError (csv_not_found file_path)],
         Inl (FileNotFoundError (csv_not_found file_path)))
      else
        (case read_csv w file_path of
           Inl e \<Rightarrow> ([Exists file_path, ReadCsv file_path], Inl e)
         | Inr data \<Rightarrow>
             (if data_type = ''contact'' then
                ([Exists file_path, ReadCsv file_path]
                   @ upload_rows w (BASE_URL @ ''/contacts'') hdrs 0 data, Inr ())
              else if data_type = ''company'' then
                ([Exists file_path, ReadCsv file_path]
                   @ upload_rows w (BASE_URL @ ''/accounts'') hdrs 0 data, Inr ())
              else
                ([Exists file_path, ReadCsv file_path,
                  LogError (''Unsupported data type: '' @ data_type)],
                 Inl (ValueError (''Unsupported data type: '' @ data_type))))))"

text \<open>The loop of \<open>pretty_print_json\<close> over \<open>enumerate(data_items, start=1)\<close>.\<close>

fun print_items :: "world \<Rightarrow> nat \<Rightarrow> pyval list \<Rightarrow> event list" where
  "print_items w idx [] = []"
| "print_items w idx (item # items) =
     Print (''Item '' @ str_nat idx @ '':'') # Print (json_dumps w 4 item)
       # print_items w (Suc idx) items"

fun pretty_print_json :: "world \<Rightarrow> pyval \<Rightarrow> event list" where
  "pretty_print_json w (PDict kvs) = print_items w 1 [PDict kvs]"
| "pretty_print_json w (PList xs) = print_items w 1 xs"
| "pretty_print_json w _ =
     [LogError ''Unexpected data format. Expected a list or dict.'',
      Print ''Unexpected data format.'']"

text \<open>The request of \<open>enrich_domains\<close>: its \<open>url\<close>, the global headers and \<open>data\<close>.\<close>

definition enrich_request :: "(string \<times> string) list \<Rightarrow> string list \<Rightarrow> request" where
  "enrich_request hdrs domains =
     \<lparr>url = ''https://api.apollo.io/api/v1/organizations/bulk_enrich'',
      headers = hdrs,
      json = PDict [(''domains'', PList (map PStr domains))]\<rparr>"

definition enrich_domains ::
  "world \<Rightarrow> (string \<times> string) list \<Rightarrow> string list \<Rightarrow> event list \<times> (exn + unit)" where
  "enrich_domains w hdrs domains =
     (let req = enrich_request hdrs domains
      in case post w 0 req of
           Inl e \<Rightarrow> ([Post req], Inl e)
         | Inr resp \<Rightarrow>
             (if status_code resp = 200 then
                (case json_result resp of
                   Inl e \<Rightarrow> ([Post req], Inl e)
                 | Inr response_data \<Rightarrow> (Post req # pretty_print_json w response_data, Inr ()))
              else
                ([Post req, Print (''Error: '' @ str_int (status_code resp)),
                  Print (body_text resp)], Inr ())))"

subsection \<open>The main block\<close>

text \<open>
  What docopt makes of the command line: the arguments of one of the four commands, or an
  exit of its own (after printing the help text or the version with status 0, or with
  the usage message and status 1 for a command line outside the grammar).
\<close>

datatype command =
    Company string
  | Create string string string
  | Upload string string
  | Enrich "string list"

datatype docopt_result =
    Arguments command
  | HelpExit string
  | DocoptExit string

record run =
  events :: "event list"
  exit_code :: int

definition make_headers :: "string \<Rightarrow> (string \<times> string) list" where
  "make_headers api_key =
     [(''Cache-Control'', ''no-cache''),
      (''Content-Type'', ''application/json''),
      (''X-Api-Key'', api_key)]"

text \<open>The \<open>company\<close> branch: the handlers print first and log second.\<close>

definition company_request :: "(string \<times> string) list \<Rightarrow> string \<Rightarrow> request" where
  "company_request hdrs query =
     \<lparr>url = BASE_URL @ ''/accounts'', headers = hdrs, json = PDict [(''name'', PStr query)]\<rparr>"

definition company_branch :: "world \<Rightarrow> (string \<times> string) list \<Rightarrow> string \<Rightarrow> event list" where
  "company_branch w hdrs query =
     (let req = company_request hdrs query
      in Post req #
         (case post w 0 req of
            Inl e \<Rightarrow> [Print (error_message e), LogError (error_message e)]
          | Inr resp \<Rightarrow>
              (case raise_for_status resp of
                 Some e \<Rightarrow> [Print (error_message e), LogError (error_message e)]
               | None \<Rightarrow>
                   (case json_result resp of
                      Inl e \<Rightarrow> [Print (error_message e), LogError (error_message e)]
                    | Inr response_data \<Rightarrow> pretty_print_json w response_data))))"

text \<open>
  The \<open>create\<close> branch. \<open>print("Contact created:", x)\<close> separates its arguments by a space;
  \<open>response.json()\<close> is evaluated before anything is printed.
\<close>

definition create_request ::
  "(string \<times> string) list \<Rightarrow> string \<Rightarrow> string \<Rightarrow> string \<Rightarrow> request" where
  "create_request hdrs name email company =
     \<lparr>url = BASE_URL @ ''/contacts'', headers = hdrs,
      json = PDict [(''first_name'', PStr name), (''email'', PStr email),
                    (''company'', PStr company)]\<rparr>"

definition create_branch ::
  "world \<Rightarrow> (string \<times> string) list \<Rightarrow> string \<Rightarrow> string \<Rightarrow> string \<Rightarrow> event list" where
  "create_branch w hdrs name email company =
     (let req = create_request hdrs name email company
      in Post req #
         (case post w 0 req of
            Inl e \<Rightarrow> [Print (error_message e), LogError (error_message e)]
          | Inr resp \<Rightarrow>
              (case raise_for_status resp of
                 Some e \<Rightarrow> [Print (error_message e), LogError (error_message e)]
               | None \<Rightarrow>
                   (if status_code resp = 201 then
                      (case json_result resp of
                         Inl e \<Rightarrow> [Print (error_message e), LogError (error_message e)]
                       | Inr v \<Rightarrow> [Print (''Contact created: '' @ py_str w v)])
                    else if status_code resp = 200 then
                      [Print (''Solicitud aceptada: '' @ body_text resp)]
                    else []))))"

text \<open>
  The \<open>upload\<close> branch has \<open>except (FileNotFoundError, ValueError) as e\<close>; any other
  exception leaves the script, and the interpreter ends with status 1.
\<close>

fun caught_by_upload :: "exn \<Rightarrow> bool" where
  "caught_by_upload (FileNotFoundError _) = True"
| "caught_by_upload (ValueError _) = True"
| "caught_by_upload _ = False"

definition upload_branch ::
  "world \<Rightarrow> (string \<times> string) list \<Rightarrow> string \<Rightarrow> string \<Rightarrow> run" where
  "upload_branch w hdrs data_type file_path =
     (case upload_data w hdrs file_path data_type of
        (t, Inr _) \<Rightarrow> \<lparr>events = t, exit_code = 0\<rparr>
      | (t, Inl e) \<Rightarrow>
          (if caught_by_upload e then
             \<lparr>events = t @ [Print (''Error: '' @ str_exn e), LogError (''Error: '' @ str_exn e)],
              exit_code = 0\<rparr>
           else \<lparr>events = t, exit_code = 1\<rparr>))"

definition enrich_branch :: "world \<Rightarrow> (string \<times> string) list \<Rightarrow> string list \<Rightarrow> event list" where
  "enrich_branch w hdrs domains =
     (case enrich_domains w hdrs domains of
        (t, Inr _) \<Rightarrow> t
      | (t, Inl e) \<Rightarrow>
          t @ [Print (''Error: '' @ str_exn e), LogError (''Error: '' @ str_exn e)])"

fun dispatch :: "world \<Rightarrow> (string \<times> string) list \<Rightarrow> command \<Rightarrow> run" where
  "dispatch w hdrs (Company query) = \<lparr>events = company_branch w hdrs query, exit_code = 0\<rparr>"
| "dispatch w hdrs (Create name email company) =
     \<lparr>events = create_branch w hdrs name email company, exit_code = 0\<rparr>"
| "dispatch w hdrs (Upload data_type file_path) = upload_branch w hdrs data_type file_path"
| "dispatch w hdrs (Enrich domains) = \<lparr>events = enrich_branch w hdrs domains, exit_code = 0\<rparr>"

text \<open>
  The global \<open>headers\<close> when \<open>read()\<close> has returned \<open>content\<close> for the key file, and the
  endpoint \<open>upload_data\<close> posts the rows of a supported type to.
\<close>

definition api_headers :: "string \<Rightarrow> (string \<times> string) list" where
  "api_headers content = make_headers (strip content)"

definition upload_url :: "string \<Rightarrow> string" where
  "upload_url data_type =
     (if data_type = ''contact'' then BASE_URL @ ''/contacts'' else BASE_URL @ ''/accounts'')"

text \<open>
  The main block: the key is read before docopt looks at the command line, and
  \<open>exit(1)\<close> ends the process when the key file is missing. Only \<open>FileNotFoundError\<close> is
  caught there: any other exception of the read leaves the script, and the interpreter
  ends with status 1.
\<close>

definition main :: "world \<Rightarrow> docopt_result \<Rightarrow> run" where
  "main w parsed =
     (case read_api_key w of
        (t, Inl (FileNotFoundError m)) \<Rightarrow>
          \<lparr>events = t @ [Print (''Error: '' @ m),
                          LogError ''Exiting due to missing API key file.''],
           exit_code = 1\<rparr>
      | (t, Inl _) \<Rightarrow> \<lparr>events = t, exit_code = 1\<rparr>
      | (t, Inr api_key) \<Rightarrow>
          (case parsed of
             DocoptExit usage \<Rightarrow> \<lparr>events = t, exit_code = 1\<rparr>
           | HelpExit shown \<Rightarrow> \<lparr>events = t @ [Print shown], exit_code = 0\<rparr>
           | Arguments cmd \<Rightarrow>
               (case dispatch w (make_headers api_key) cmd of
                  r \<Rightarrow> \<lparr>events = t @ events r, exit_code = exit_code r\<rparr>)))"

subsection \<open>Concrete worlds\<close>

text \<open>A world without the key file.\<close>

definition no_key_world :: world where
  "no_key_world =
     \<lparr>path_exists = (\<lambda>p. False), read_text = (\<lambda>p. Inr []), read_csv = (\<lambda>p. Inr []),
      post = (\<lambda>n r. Inl (OtherException ''unreachable'')),
      json_dumps = (\<lambda>n v. []), py_str = (\<lambda>v. []), str_row = (\<lambda>k r. [])\<rparr>"

text \<open>A world with the key file \<^verbatim>\<open>ABC123\<close> and a newline, and a service that answers 200.\<close>

definition abc_world :: world where
  "abc_world =
     \<lparr>path_exists = (\<lambda>p. p = ''api_key.key''),
      read_text = (\<lambda>p. Inr (''ABC123'' @ [CHR 0x0A])),
      read_csv = (\<lambda>p. Inr []),
      post = (\<lambda>n r. Inr \<lparr>status_code = 200, reason = ''OK'', resp_url = url r,
                            body_text = ''[]'', json_result = Inr (PList [])\<rparr>),
      json_dumps = (\<lambda>n v. []), py_str = (\<lambda>v. []), str_row = (\<lambda>k r. [])\<rparr>"

text \<open>A world whose key file has white space on both sides of the key.\<close>

definition padded_world :: world where
  "padded_world =
     \<lparr>path_exists = (\<lambda>p. p = ''api_key.key''),
      read_text = (\<lambda>p. Inr ([CHR 0x0A, CHR 0x20] @ ''ABC123'' @ [CHR 0x20, CHR 0x0A])),
      read_csv = (\<lambda>p. Inr []),
      post = (\<lambda>n r. Inl (OtherException ''offline'')),
      json_dumps = (\<lambda>n v. []), py_str = (\<lambda>v. []), str_row = (\<lambda>k r. [])\<rparr>"

text \<open>A world whose \<open>json_dumps\<close> quotes a string.\<close>

definition echo_world :: world where
  "echo_world =
     \<lparr>path_exists = (\<lambda>p. True), read_text = (\<lambda>p. Inr ''ABC123''), read_csv = (\<lambda>p. Inr []),
      post = (\<lambda>n r. Inl (OtherException ''offline'')),
      json_dumps = (\<lambda>n v. case v of PStr s \<Rightarrow> [CHR 0x22] @ s @ [CHR 0x22] | _ \<Rightarrow> ''{}''),
      py_str = (\<lambda>v. []), str_row = (\<lambda>k r. [])\<rparr>"

text \<open>
  A world with a table of three rows, where the second request of the process fails in
  transport and the others are answered 201.
\<close>

definition ok_response :: "string \<Rightarrow> response" where
  "ok_response u = \<lparr>status_code = 201, reason = ''Created'', resp_url = u,
                     body_text = ''{}'', json_result = Inr (PDict [])\<rparr>"

definition three_rows :: "row list" where
  "three_rows = [[(''email'', PStr ''a@x.org'')], [(''email'', PStr ''b@x.org'')],
                 [(''email'', PStr ''c@x.org'')]]"

definition rows_world :: world where
  "rows_world =
     \<lparr>path_exists = (\<lambda>p. p = ''api_key.key'' \<or> p = ''rows.csv''),
      read_text = (\<lambda>p. Inr ''ABC123''),
      read_csv = (\<lambda>p. Inr three_rows),
      post = (\<lambda>n r. if n = 1 then Inl (OtherException ''Connection refused'')
                      else Inr (ok_response (url r))),
      json_dumps = (\<lambda>n v. []), py_str = (\<lambda>v. []), str_row = (\<lambda>k r. ''row'')\<rparr>"

text \<open>
  A service that answers 201 with an empty body, which \<open>response.json()\<close> cannot decode,
  and one that answers 201 with an empty object.
\<close>

definition undecodable_201 :: "string \<Rightarrow> response" where
  "undecodable_201 u =
     \<lparr>status_code = 201, reason = ''Created'', resp_url = u, body_text = [],
      json_result = Inl (ValueError ''Expecting value: line 1 column 1 (char 0)'')\<rparr>"

definition empty_201_world :: world where
  "empty_201_world =
     \<lparr>path_exists = (\<lambda>p. p = ''api_key.key''),
      read_text = (\<lambda>p. Inr ''ABC123''),
      read_csv = (\<lambda>p. Inr []),
      post = (\<lambda>n r. Inr (undecodable_201 (url r))),
      json_dumps = (\<lambda>n v. []), py_str = (\<lambda>v. ''{}''), str_row = (\<lambda>k r. [])\<rparr>"

definition created_world :: world where
  "created_world =
     \<lparr>path_exists = (\<lambda>p. p = ''api_key.key''),
      read_text = (\<lambda>p. Inr ''ABC123''),
      read_csv = (\<lambda>p. Inr []),
      post = (\<lambda>n r. Inr (ok_response (url r))),
      json_dumps = (\<lambda>n v. []), py_str = (\<lambda>v. ''{}''), str_row = (\<lambda>k r. [])\<rparr>"

text \<open>
  A service that answers every request with status 500, beside a directory \<open>data\<close> that
  \<open>read_csv\<close> cannot open and an empty file that it cannot parse.
\<close>

definition error_500 :: "string \<Rightarrow> response" where
  "error_500 u =
     \<lparr>status_code = 500, reason = ''Internal Server Error'', resp_url = u,
      body_text = ''boom'', json_result = Inl (ValueError ''Expecting value'')\<rparr>"

definition failing_world :: world where
  "failing_world =
     \<lparr>path_exists = (\<lambda>p. p = ''api_key.key'' \<or> p = ''data'' \<or> p = ''empty.csv''),
      read_text = (\<lambda>p. Inr ''ABC123''),
      read_csv = (\<lambda>p. if p = ''data'' then Inl (OtherException ''[Errno 21] Is a directory'')
                        else Inl (ValueError ''No columns to parse from file'')),
      post = (\<lambda>n r. Inr (error_500 (url r))),
      json_dumps = (\<lambda>n v. []), py_str = (\<lambda>v. []), str_row = (\<lambda>k r. [])\<rparr>"

text \<open>A world whose key file exists and cannot be read.\<close>

definition locked_key_world :: world where
  "locked_key_world =
     \<lparr>path_exists = (\<lambda>p. p = ''api_key.key''),
      read_text = (\<lambda>p. Inl (OtherException ''[Errno 13] Permission denied'')),
      read_csv = (\<lambda>p. Inr []),
      post = (\<lambda>n r. Inr (ok_response (url r))),
      json_dumps = (\<lambda>n v. []), py_str = (\<lambda>v. []), str_row = (\<lambda>k r. [])\<rparr>"

section \<open>Properties\<close>

subsection \<open>Requests in a list of events\<close>

lemma posts_append: "posts (t @ u) = posts t @ posts u"
  by (induction t rule: posts.induct) simp_all

lemma posts_upload_row:
  "posts (upload_row w u hdrs k r) = [\<lparr>url = u, headers = hdrs, json = PDict r\<rparr>]"
  by (simp add: upload_row_def split: sum.split option.split)

lemma posts_upload_rows:
  "posts (upload_rows w u hdrs k rs) = map (\<lambda>r. \<lparr>url = u, headers = hdrs, json = PDict r\<rparr>) rs"
  by (induction rs arbitrary: k) (simp_all add: posts_append posts_upload_row)

lemma posts_print_items: "posts (print_items w idx xs) = []"
  by (induction xs arbitrary: idx) simp_all

lemma posts_pretty_print_json: "posts (pretty_print_json w d) = []"
  by (cases d) (simp_all add: posts_print_items)

lemma posts_enrich_domains:
  "posts (fst (enrich_domains w hdrs domains)) =
     [\<lparr>url = ''https://api.apollo.io/api/v1/organizations/bulk_enrich'',
       headers = hdrs,
       json = PDict [(''domains'', PList (map PStr domains))]\<rparr>]"
  by (simp add: enrich_domains_def enrich_request_def Let_def posts_pretty_print_json
        split: sum.split)

lemma main_with_key:
  "path_exists w ''api_key.key'' \<Longrightarrow> read_text w ''api_key.key'' = Inr content \<Longrightarrow>
   main w (Arguments cmd) =
     \<lparr>events = [Exists ''api_key.key'', ReadFile ''api_key.key'']
                 @ events (dispatch w (api_headers content) cmd),
      exit_code = exit_code (dispatch w (api_headers content) cmd)\<rparr>"
  by (simp add: main_def read_api_key_def api_headers_def)

lemma main_key_unread:
  "path_exists w ''api_key.key'' \<Longrightarrow> read_text w ''api_key.key'' = Inl e \<Longrightarrow>
   posts (events (main w parsed)) = [] \<and> exit_code (main w parsed) = 1"
  by (cases e) (simp_all add: main_def read_api_key_def)

lemma posts_upload_data:
  "r \<in> set (posts (fst (upload_data w hdrs f t))) \<Longrightarrow> headers r = hdrs"
  by (auto simp: upload_data_def posts_upload_rows split: if_splits sum.splits)

lemma posts_dispatch_headers:
  "r \<in> set (posts (events (dispatch w hdrs cmd))) \<Longrightarrow> headers r = hdrs"
proof (cases cmd)
  case (Company q)
  then show "r \<in> set (posts (events (dispatch w hdrs cmd))) \<Longrightarrow> headers r = hdrs"
    by (auto simp: company_branch_def company_request_def Let_def posts_pretty_print_json
             split: sum.splits option.splits)
next
  case (Create n e c)
  then show "r \<in> set (posts (events (dispatch w hdrs cmd))) \<Longrightarrow> headers r = hdrs"
    by (auto simp: create_branch_def create_request_def Let_def
             split: sum.splits option.splits if_splits)
next
  case (Upload t f)
  then show "r \<in> set (posts (events (dispatch w hdrs cmd))) \<Longrightarrow> headers r = hdrs"
    using posts_upload_data [of r w hdrs f t]
    by (auto simp: upload_branch_def posts_append split: prod.splits sum.splits if_splits)
next
  case (Enrich ds)
  then show "r \<in> set (posts (events (dispatch w hdrs cmd))) \<Longrightarrow> headers r = hdrs"
    using posts_enrich_domains [of w hdrs ds]
    by (auto simp: enrich_branch_def posts_append split: prod.splits sum.splits)
qed

lemma posts_main_headers:
  assumes "r \<in> set (posts (events (main w parsed)))"
    and "read_text w ''api_key.key'' = Inr content"
  shows "headers r = api_headers content"
proof (cases "path_exists w ''api_key.key''")
  case False
  then show ?thesis using assms(1) by (simp add: main_def read_api_key_def)
next
  case True
  show ?thesis
  proof (cases parsed)
    case (Arguments cmd)
    then show ?thesis
      using assms(1) posts_dispatch_headers
      by (auto simp: main_with_key [OF True assms(2)] posts_append)
  next
    case (HelpExit s)
    then show ?thesis using assms True by (simp add: main_def read_api_key_def)
  next
    case (DocoptExit s)
    then show ?thesis using assms True by (simp add: main_def read_api_key_def)
  qed
qed

subsection \<open>The missing key file\<close>

text \<open>
  C1. When \<open>api_key.key\<close> does not exist, the process logs and prints the
  missing-credential error and exits with status 1; whatever the command line, the events
  are these four, so no request is made and no handler runs.
\<close>

theorem missing_key_exits_1:
  assumes "\<not> path_exists w ''api_key.key''"
  shows "main w parsed =
           \<lparr>events = [Exists ''api_key.key'',
                       LogError ''API key file 'api_key.key' not found.'',
                       Print ''Error: API key file 'api_key.key' not found.'',
                       LogError ''Exiting due to missing API key file.''],
            exit_code = 1\<rparr>
         \<and> posts (events (main w parsed)) = []"
  using assms by (simp add: main_def read_api_key_def)

theorem missing_key_exits_1_witness:
  "\<not> path_exists no_key_world ''api_key.key''
   \<and> exit_code (main no_key_world (Arguments (Enrich [''example.com'']))) = 1
   \<and> posts (events (main no_key_world (Arguments (Enrich [''example.com''])))) = []"
proof -
  have h: "\<not> path_exists no_key_world ''api_key.key''"
    by (simp add: no_key_world_def)
  show ?thesis
    using h missing_key_exits_1 [OF h, of "Arguments (Enrich [''example.com''])"] by simp
qed

subsection \<open>Domain enrichment\<close>

text \<open>
  C3. For every list of domains, \<open>enrich_domains\<close> makes exactly one request, and its
  JSON body is the object with the single field \<open>domains\<close> holding the whole list in
  order, whatever the service answers.
\<close>

theorem enrich_posts_once:
  "posts (fst (enrich_domains w hdrs domains)) =
     [\<lparr>url = ''https://api.apollo.io/api/v1/organizations/bulk_enrich'',
       headers = hdrs,
       json = PDict [(''domains'', PList (map PStr domains))]\<rparr>]"
  by (simp add: enrich_domains_def enrich_request_def Let_def posts_pretty_print_json
        split: sum.split)

subsection \<open>The key in the request header\<close>

text \<open>
  C7. When the key file holds \<^verbatim>\<open>ABC123\<close> followed by a newline, the key the loader
  returns is \<^verbatim>\<open>ABC123\<close>, and every request the process makes, whatever the command,
  carries it as its \<open>X-Api-Key\<close> header.
\<close>

theorem key_ABC123_in_header:
  assumes "path_exists w ''api_key.key''"
    and "read_text w ''api_key.key'' = Inr (''ABC123'' @ [CHR 0x0A])"
  shows "snd (read_api_key w) = Inr ''ABC123''
         \<and> (\<forall>r \<in> set (posts (events (main w parsed))).
               map_of (headers r) ''X-Api-Key'' = Some ''ABC123'')"
proof -
  have "snd (read_api_key w) = Inr ''ABC123''"
    using assms by (simp add: read_api_key_def strip_def lstrip_def rstrip_def isspace_def)
  moreover have "\<forall>r \<in> set (posts (events (main w parsed))).
               map_of (headers r) ''X-Api-Key'' = Some ''ABC123''"
    using posts_main_headers [of _ w parsed, OF _ assms(2)]
    by (simp add: api_headers_def make_headers_def strip_def lstrip_def rstrip_def isspace_def)
  ultimately show ?thesis by simp
qed

theorem key_ABC123_in_header_witness:
  "path_exists abc_world ''api_key.key''
   \<and> read_text abc_world ''api_key.key'' = Inr (''ABC123'' @ [CHR 0x0A])
   \<and> length (posts (events (main abc_world (Arguments (Company ''Acme''))))) = 1
   \<and> map_of (headers (hd (posts (events (main abc_world (Arguments (Company ''Acme''))))))) ''X-Api-Key''
       = Some ''ABC123''"
proof -
  have e: "path_exists abc_world ''api_key.key''"
    by (simp add: abc_world_def)
  have t: "read_text abc_world ''api_key.key'' = Inr (''ABC123'' @ [CHR 0x0A])"
    by (simp add: abc_world_def)
  have p: "length (posts (events (main abc_world (Arguments (Company ''Acme''))))) = 1"
    by (simp add: main_def read_api_key_def company_branch_def company_request_def Let_def
          abc_world_def raise_for_status_def)
  then have "hd (posts (events (main abc_world (Arguments (Company ''Acme'')))))
               \<in> set (posts (events (main abc_world (Arguments (Company ''Acme'')))))"
    by (cases "posts (events (main abc_world (Arguments (Company ''Acme''))))") simp_all
  with key_ABC123_in_header [OF e t, of "Arguments (Company ''Acme'')"] e t p
  show ?thesis by blast
qed

subsection \<open>Stripping the key\<close>

lemma dropWhile_all: "\<forall>c \<in> set xs. P c \<Longrightarrow> dropWhile P (xs @ ys) = dropWhile P ys"
  by (induction xs) simp_all

lemma lstrip_core:
  assumes "\<forall>c \<in> set pre. isspace c" and "rest = [] \<or> \<not> isspace (hd rest)"
  shows "lstrip (pre @ rest) = rest"
  using assms by (cases rest) (simp_all add: lstrip_def dropWhile_all)

lemma rstrip_core:
  assumes "\<forall>c \<in> set suf. isspace c" and "core = [] \<or> \<not> isspace (last core)"
  shows "rstrip (core @ suf) = core"
proof -
  have "dropWhile isspace (rev suf @ rev core) = dropWhile isspace (rev core)"
    using assms(1) by (simp add: dropWhile_all)
  also have "\<dots> = rev core"
    using assms(2) by (cases "rev core") (auto simp: last_rev [symmetric] hd_rev)
  finally show ?thesis by (simp add: rstrip_def)
qed

text \<open>
  C10. The loader strips white space on both sides: when the file holds a key that neither
  starts nor ends with white space, with any white space before and after it, the loader
  returns the key alone.
\<close>

theorem strip_both_ends:
  assumes "\<forall>c \<in> set pre. isspace c" and "\<forall>c \<in> set suf. isspace c"
    and "core = [] \<or> (\<not> isspace (hd core) \<and> \<not> isspace (last core))"
    and "path_exists w ''api_key.key''"
    and "read_text w ''api_key.key'' = Inr (pre @ core @ suf)"
  shows "strip (pre @ core @ suf) = core \<and> snd (read_api_key w) = Inr core"
proof -
  have "strip (pre @ core @ suf) = core"
  proof (cases core)
    case Nil
    have "lstrip (pre @ suf) = []"
      using assms(1,2) by (auto simp: lstrip_def)
    then show ?thesis using Nil by (simp add: strip_def rstrip_def)
  next
    case (Cons c cs)
    then have "lstrip (pre @ core @ suf) = core @ suf"
      using assms(1,3) lstrip_core [of pre "core @ suf"] by simp
    moreover have "rstrip (core @ suf) = core"
      using assms(2,3) rstrip_core [of suf core] by blast
    ultimately show ?thesis by (simp add: strip_def)
  qed
  then show ?thesis using assms(4,5) by (simp add: read_api_key_def)
qed

theorem strip_both_ends_witness:
  "isspace (CHR 0x0A) \<and> isspace (CHR 0x20)
   \<and> \<not> isspace (hd ''ABC123'') \<and> \<not> isspace (last ''ABC123'')
   \<and> path_exists padded_world ''api_key.key''
   \<and> strip ([CHR 0x0A, CHR 0x20] @ ''ABC123'' @ [CHR 0x20, CHR 0x0A]) = ''ABC123''
   \<and> snd (read_api_key padded_world) = Inr ''ABC123''"
proof -
  have a: "\<forall>c \<in> set [CHR 0x0A, CHR 0x20]. isspace c"
    by (simp add: isspace_def)
  have b: "\<forall>c \<in> set [CHR 0x20, CHR 0x0A]. isspace c"
    by (simp add: isspace_def)
  have c: "''ABC123'' = [] \<or> (\<not> isspace (hd ''ABC123'') \<and> \<not> isspace (last ''ABC123''))"
    by (simp add: isspace_def)
  have d: "path_exists padded_world ''api_key.key''"
    by (simp add: padded_world_def)
  have e: "read_text padded_world ''api_key.key''
             = Inr ([CHR 0x0A, CHR 0x20] @ ''ABC123'' @ [CHR 0x20, CHR 0x0A])"
    by (simp add: padded_world_def)
  show ?thesis
    using a b c d strip_both_ends [OF a b c d e] by simp
qed

subsection \<open>The pretty-printer\<close>

lemma length_print_items: "length (print_items w idx xs) = 2 * length xs"
  by (induction xs arbitrary: idx) simp_all

lemma print_items_nth:
  "i < length xs \<Longrightarrow>
   print_items w idx xs ! (2 * i) = Print (''Item '' @ str_nat (idx + i) @ '':'')
   \<and> print_items w idx xs ! (2 * i + 1) = Print (json_dumps w 4 (xs ! i))"
proof (induction xs arbitrary: idx i)
  case Nil
  then show ?case by simp
next
  case (Cons x xs)
  show ?case
  proof (cases i)
    case 0
    then show ?thesis by simp
  next
    case (Suc j)
    then have "j < length xs" using Cons.prems by simp
    from Cons.IH [OF this, of "Suc idx"] Suc show ?thesis by simp
  qed
qed

lemma str_nat_1: "str_nat (Suc 0) = ''1''"
  by (simp add: str_nat.simps)

text \<open>
  C8. \<open>pretty_print_json\<close> prints a single object as the one item \<open>Item 1:\<close> followed by
  its dump with indent 4; it prints the elements of a list in order, element \<open>i\<close> (from 0)
  as \<open>Item i+1:\<close> followed by its dump; for any other value it logs and prints the
  format error and prints no item.
\<close>

theorem pretty_print_json_shapes:
  "pretty_print_json w (PDict kvs) = [Print ''Item 1:'', Print (json_dumps w 4 (PDict kvs))]
   \<and> length (pretty_print_json w (PList xs)) = 2 * length xs
   \<and> (\<forall>i < length xs.
         pretty_print_json w (PList xs) ! (2 * i) = Print (''Item '' @ str_nat (i + 1) @ '':'')
         \<and> pretty_print_json w (PList xs) ! (2 * i + 1) = Print (json_dumps w 4 (xs ! i)))
   \<and> ((\<forall>kvs. d \<noteq> PDict kvs) \<and> (\<forall>xs. d \<noteq> PList xs) \<longrightarrow>
         pretty_print_json w d =
           [LogError ''Unexpected data format. Expected a list or dict.'',
            Print ''Unexpected data format.''])"
proof -
  have "pretty_print_json w (PDict kvs) = [Print ''Item 1:'', Print (json_dumps w 4 (PDict kvs))]"
    by (simp add: str_nat_1)
  moreover have "length (pretty_print_json w (PList xs)) = 2 * length xs"
    by (simp add: length_print_items)
  moreover have "\<forall>i < length xs.
         pretty_print_json w (PList xs) ! (2 * i) = Print (''Item '' @ str_nat (i + 1) @ '':'')
         \<and> pretty_print_json w (PList xs) ! (2 * i + 1) = Print (json_dumps w 4 (xs ! i))"
    using print_items_nth [of _ xs w 1] by simp
  moreover have "(\<forall>kvs. d \<noteq> PDict kvs) \<and> (\<forall>xs. d \<noteq> PList xs) \<longrightarrow>
         pretty_print_json w d =
           [LogError ''Unexpected data format. Expected a list or dict.'',
            Print ''Unexpected data format.'']"
    by (cases d) simp_all
  ultimately show ?thesis by blast
qed

theorem pretty_print_json_shapes_witness:
  "pretty_print_json echo_world (PList [PStr ''a'', PStr ''b'']) ! 2 = Print ''Item 2:''
   \<and> pretty_print_json echo_world (PList [PStr ''a'', PStr ''b'']) ! 3
        = Print (json_dumps echo_world 4 (PStr ''b''))
   \<and> pretty_print_json echo_world (PStr ''oops'') =
        [LogError ''Unexpected data format. Expected a list or dict.'',
         Print ''Unexpected data format.'']"
proof -
  note T = pretty_print_json_shapes
             [of echo_world "[]" "[PStr ''a'', PStr ''b'']" "PStr ''oops''"]
  have two: "str_nat (Suc (Suc 0)) = ''2''"
    by (simp add: str_nat.simps)
  have inside: "(1::nat) < length [PStr ''a'', PStr ''b'']"
    by simp
  have items: "pretty_print_json echo_world (PList [PStr ''a'', PStr ''b'']) ! (2 * 1)
                 = Print (''Item '' @ str_nat (1 + 1) @ '':'')
               \<and> pretty_print_json echo_world (PList [PStr ''a'', PStr ''b'']) ! (2 * 1 + 1)
                 = Print (json_dumps echo_world 4 ([PStr ''a'', PStr ''b''] ! 1))"
    using conjunct1 [OF conjunct2 [OF conjunct2 [OF T]]] inside by blast
  have other: "pretty_print_json echo_world (PStr ''oops'') =
        [LogError ''Unexpected data format. Expected a list or dict.'',
         Print ''Unexpected data format.'']"
    using conjunct2 [OF conjunct2 [OF conjunct2 [OF T]]] by simp
  have a: "pretty_print_json echo_world (PList [PStr ''a'', PStr ''b'']) ! 2 = Print ''Item 2:''"
    using items by (simp add: two)
  have b: "pretty_print_json echo_world (PList [PStr ''a'', PStr ''b'']) ! 3
             = Print (json_dumps echo_world 4 (PStr ''b''))"
    using items by (simp add: two)
  from a b other show ?thesis by blast
qed

subsection \<open>Bulk upload\<close>

lemma upload_rows_append:
  "upload_rows w u hdrs k (xs @ ys) =
     upload_rows w u hdrs k xs @ upload_rows w u hdrs (k + length xs) ys"
  by (induction xs arbitrary: k) simp_all

lemma upload_rows_at:
  assumes "i < length rs"
  shows "upload_rows w u hdrs k rs =
           upload_rows w u hdrs k (take i rs) @ upload_row w u hdrs (k + i) (rs ! i)
             @ upload_rows w u hdrs (Suc (k + i)) (drop (Suc i) rs)"
proof -
  have "rs = take i rs @ (rs ! i # drop (Suc i) rs)"
    using assms by (simp add: id_take_nth_drop [symmetric])
  then have "upload_rows w u hdrs k rs =
               upload_rows w u hdrs k (take i rs @ (rs ! i # drop (Suc i) rs))"
    by simp
  also have "\<dots> = upload_rows w u hdrs k (take i rs) @ upload_row w u hdrs (k + i) (rs ! i)
             @ upload_rows w u hdrs (Suc (k + i)) (drop (Suc i) rs)"
    using assms by (simp add: upload_rows_append min_def)
  finally show ?thesis .
qed

lemma upload_row_failure:
  assumes "post w k \<lparr>url = u, headers = hdrs, json = PDict r\<rparr> = Inl e
           \<or> (\<exists>resp. post w k \<lparr>url = u, headers = hdrs, json = PDict r\<rparr> = Inr resp
                       \<and> raise_for_status resp = Some e)"
  shows "upload_row w u hdrs k r =
           [Post \<lparr>url = u, headers = hdrs, json = PDict r\<rparr>,
            LogError (error_message e), Print (error_message e)]"
  using assms by (auto simp: upload_row_def)

lemma upload_rows_failure:
  assumes "i < length rs"
    and "post w (k + i) \<lparr>url = u, headers = hdrs, json = PDict (rs ! i)\<rparr> = Inl e
           \<or> (\<exists>resp. post w (k + i) \<lparr>url = u, headers = hdrs, json = PDict (rs ! i)\<rparr> = Inr resp
                       \<and> raise_for_status resp = Some e)"
  shows "\<exists>pre suf. upload_rows w u hdrs k rs =
            pre @ [Post \<lparr>url = u, headers = hdrs, json = PDict (rs ! i)\<rparr>,
                   LogError (error_message e), Print (error_message e)] @ suf
          \<and> length (posts pre) = i"
proof -
  let ?pre = "upload_rows w u hdrs k (take i rs)"
  let ?suf = "upload_rows w u hdrs (Suc (k + i)) (drop (Suc i) rs)"
  have "upload_rows w u hdrs k rs =
          ?pre @ [Post \<lparr>url = u, headers = hdrs, json = PDict (rs ! i)\<rparr>,
                  LogError (error_message e), Print (error_message e)] @ ?suf"
    using upload_rows_at [OF assms(1), of w u hdrs k] upload_row_failure [OF assms(2)]
    by simp
  moreover have "length (posts ?pre) = i"
    using assms(1) by (simp add: posts_upload_rows)
  ultimately show ?thesis by blast
qed

lemma upload_data_supported:
  assumes "path_exists w file_path" "read_csv w file_path = Inr data"
    and "data_type = ''contact'' \<or> data_type = ''company''"
  shows "upload_data w hdrs file_path data_type =
           ([Exists file_path, ReadCsv file_path]
              @ upload_rows w (upload_url data_type) hdrs 0 data, Inr ())"
  using assms by (auto simp: upload_data_def upload_url_def)

text \<open>
  C2. For an existing file that \<open>read_csv\<close> reads as the rows \<open>data\<close>, and the type
  \<open>contact\<close> or \<open>company\<close>, the requests of \<open>upload_data\<close> are exactly one per row, in
  file order, each with the row as its body, whatever the service answers. When the
  request for row \<open>i\<close> raises, or is answered with a status that \<open>raise_for_status\<close>
  rejects, the error is logged and printed right after that request, and the requests for
  the later rows are still made.
\<close>

theorem upload_one_post_per_row:
  assumes "path_exists w file_path" and "read_csv w file_path = Inr data"
    and "data_type = ''contact'' \<or> data_type = ''company''"
  shows "posts (fst (upload_data w hdrs file_path data_type)) =
           map (\<lambda>r. \<lparr>url = upload_url data_type, headers = hdrs, json = PDict r\<rparr>) data
         \<and> (\<forall>i < length data. \<forall>e.
               (post w i \<lparr>url = upload_url data_type, headers = hdrs, json = PDict (data ! i)\<rparr>
                  = Inl e
                \<or> (\<exists>resp. post w i \<lparr>url = upload_url data_type, headers = hdrs,
                                      json = PDict (data ! i)\<rparr> = Inr resp
                           \<and> raise_for_status resp = Some e))
               \<longrightarrow> (\<exists>pre suf. fst (upload_data w hdrs file_path data_type) =
                       pre @ [Post \<lparr>url = upload_url data_type, headers = hdrs,
                                    json = PDict (data ! i)\<rparr>,
                              LogError (error_message e), Print (error_message e)] @ suf
                     \<and> length (posts pre) = i))"
proof -
  note D = upload_data_supported [OF assms, of hdrs]
  have one: "posts (fst (upload_data w hdrs file_path data_type)) =
           map (\<lambda>r. \<lparr>url = upload_url data_type, headers = hdrs, json = PDict r\<rparr>) data"
    by (simp add: D posts_upload_rows)
  have two: "\<exists>pre suf. fst (upload_data w hdrs file_path data_type) =
                       pre @ [Post \<lparr>url = upload_url data_type, headers = hdrs,
                                    json = PDict (data ! i)\<rparr>,
                              LogError (error_message e), Print (error_message e)] @ suf
                     \<and> length (posts pre) = i"
    if "i < length data"
      and "post w i \<lparr>url = upload_url data_type, headers = hdrs, json = PDict (data ! i)\<rparr>
                  = Inl e
                \<or> (\<exists>resp. post w i \<lparr>url = upload_url data_type, headers = hdrs,
                                      json = PDict (data ! i)\<rparr> = Inr resp
                           \<and> raise_for_status resp = Some e)"
    for i e
  proof -
    from upload_rows_failure [of i data w 0 "upload_url data_type" hdrs e] that
    obtain pre suf where
      "upload_rows w (upload_url data_type) hdrs 0 data =
         pre @ [Post \<lparr>url = upload_url data_type, headers = hdrs, json = PDict (data ! i)\<rparr>,
                LogError (error_message e), Print (error_message e)] @ suf"
      and "length (posts pre) = i"
      by auto
    then have "fst (upload_data w hdrs file_path data_type) =
                 ([Exists file_path, ReadCsv file_path] @ pre)
                   @ [Post \<lparr>url = upload_url data_type, headers = hdrs, json = PDict (data ! i)\<rparr>,
                      LogError (error_message e), Print (error_message e)] @ suf
               \<and> length (posts ([Exists file_path, ReadCsv file_path] @ pre)) = i"
      by (simp add: D)
    then show ?thesis by blast
  qed
  from one two show ?thesis by blast
qed

theorem upload_one_post_per_row_witness:
  "path_exists rows_world ''rows.csv''
   \<and> read_csv rows_world ''rows.csv'' = Inr three_rows
   \<and> length three_rows = 3
   \<and> post rows_world 1 \<lparr>url = upload_url ''contact'', headers = make_headers ''ABC123'',
                           json = PDict (three_rows ! 1)\<rparr>
       = Inl (OtherException ''Connection refused'')
   \<and> length (posts (fst (upload_data rows_world (make_headers ''ABC123'') ''rows.csv'' ''contact''))) = 3
   \<and> map json (posts (fst (upload_data rows_world (make_headers ''ABC123'') ''rows.csv'' ''contact'')))
       = map PDict three_rows"
proof -
  have a: "path_exists rows_world ''rows.csv''"
    by (simp add: rows_world_def)
  have b: "read_csv rows_world ''rows.csv'' = Inr three_rows"
    by (simp add: rows_world_def)
  have c: "''contact'' = ''contact'' \<or> ''contact'' = ''company''"
    by simp
  have d: "length three_rows = 3"
    by (simp add: three_rows_def)
  have e: "post rows_world 1 \<lparr>url = upload_url ''contact'', headers = make_headers ''ABC123'',
                           json = PDict (three_rows ! 1)\<rparr>
       = Inl (OtherException ''Connection refused'')"
    by (simp add: rows_world_def)
  note T = upload_one_post_per_row [OF a b c, of "make_headers ''ABC123''"]
  have f: "length (posts (fst (upload_data rows_world (make_headers ''ABC123'') ''rows.csv'' ''contact''))) = 3"
    using conjunct1 [OF T] d by simp
  have g: "map json (posts (fst (upload_data rows_world (make_headers ''ABC123'') ''rows.csv'' ''contact'')))
       = map PDict three_rows"
    using conjunct1 [OF T] by (simp add: comp_def)
  from a b d e f g show ?thesis by blast
qed

subsection \<open>The order of the checks of the upload\<close>

lemma upload_data_missing:
  "\<not> path_exists w file_path \<Longrightarrow>
   upload_data w hdrs file_path data_type =
     ([Exists file_path, LogError (csv_not_found file_path)],
      Inl (FileNotFoundError (csv_not_found file_path)))"
  by (simp add: upload_data_def)

lemma upload_data_unsupported:
  assumes "path_exists w file_path" and "read_csv w file_path = Inr data"
    and "data_type \<noteq> ''contact''" and "data_type \<noteq> ''company''"
  shows "upload_data w hdrs file_path data_type =
           ([Exists file_path, ReadCsv file_path,
             LogError (''Unsupported data type: '' @ data_type)],
            Inl (ValueError (''Unsupported data type: '' @ data_type)))"
  using assms by (simp add: upload_data_def)

lemma upload_data_reads_first:
  "path_exists w file_path \<Longrightarrow>
   take 2 (fst (upload_data w hdrs file_path data_type)) = [Exists file_path, ReadCsv file_path]"
  by (simp add: upload_data_def split: sum.split)

lemma posts_upload_data_unsupported:
  assumes "data_type \<noteq> ''contact''" and "data_type \<noteq> ''company''"
  shows "posts (fst (upload_data w hdrs file_path data_type)) = []"
  using assms by (simp add: upload_data_def split: sum.split)

lemma posts_upload_branch:
  "posts (events (upload_branch w hdrs t f)) = posts (fst (upload_data w hdrs f t))"
  by (cases "upload_data w hdrs f t") (auto simp: upload_branch_def posts_append split: sum.split)

text \<open>
  C5, as the code has it. With a type that is neither \<open>contact\<close> nor \<open>company\<close> the process
  makes no request at all; when moreover the key file is read, the upload file exists and
  \<open>read_csv\<close> returns a table, it logs \<open>Unsupported data type\<close>, prints and logs it again
  after \<open>Error:\<close>, and ends with status 0.
\<close>

theorem unsupported_type_no_requests:
  assumes "data_type \<noteq> ''contact''" and "data_type \<noteq> ''company''"
  shows "posts (events (main w (Arguments (Upload data_type file_path)))) = []
         \<and> (path_exists w ''api_key.key'' \<and> read_text w ''api_key.key'' = Inr content
              \<and> path_exists w file_path \<and> read_csv w file_path = Inr data \<longrightarrow>
            main w (Arguments (Upload data_type file_path)) =
              \<lparr>events = [Exists ''api_key.key'', ReadFile ''api_key.key'',
                          Exists file_path, ReadCsv file_path,
                          LogError (''Unsupported data type: '' @ data_type),
                          Print (''Error: Unsupported data type: '' @ data_type),
                          LogError (''Error: Unsupported data type: '' @ data_type)],
               exit_code = 0\<rparr>)"
proof -
  have "posts (events (main w (Arguments (Upload data_type file_path)))) = []"
  proof (cases "path_exists w ''api_key.key''")
    case True
    show ?thesis
    proof (cases "read_text w ''api_key.key''")
      case (Inl e)
      then show ?thesis using main_key_unread [OF True Inl] by simp
    next
      case (Inr key_text)
      show ?thesis
        using posts_upload_data_unsupported [OF assms, of w "api_headers key_text" file_path]
        by (simp add: main_with_key [OF True Inr] posts_upload_branch)
    qed
  next
    case False
    then show ?thesis by (simp add: main_def read_api_key_def)
  qed
  moreover have "main w (Arguments (Upload data_type file_path)) =
              \<lparr>events = [Exists ''api_key.key'', ReadFile ''api_key.key'',
                          Exists file_path, ReadCsv file_path,
                          LogError (''Unsupported data type: '' @ data_type),
                          Print (''Error: Unsupported data type: '' @ data_type),
                          LogError (''Error: Unsupported data type: '' @ data_type)],
               exit_code = 0\<rparr>"
    if "path_exists w ''api_key.key''" and "read_text w ''api_key.key'' = Inr content"
      and "path_exists w file_path" and "read_csv w file_path = Inr data"
    using upload_data_unsupported [OF that(3,4) assms, of "api_headers content"]
    by (simp add: main_with_key [OF that(1,2)] upload_branch_def)
  ultimately show ?thesis by blast
qed

theorem unsupported_type_no_requests_witness:
  "''invoice'' \<noteq> ''contact'' \<and> ''invoice'' \<noteq> ''company''
   \<and> path_exists rows_world ''api_key.key''
   \<and> read_text rows_world ''api_key.key'' = Inr ''ABC123''
   \<and> path_exists rows_world ''rows.csv''
   \<and> read_csv rows_world ''rows.csv'' = Inr three_rows
   \<and> posts (events (main rows_world (Arguments (Upload ''invoice'' ''rows.csv'')))) = []
   \<and> printed ''Error: Unsupported data type''
        (events (main rows_world (Arguments (Upload ''invoice'' ''rows.csv''))))"
proof -
  have a: "''invoice'' \<noteq> ''contact''" by simp
  have b: "''invoice'' \<noteq> ''company''" by simp
  have c: "path_exists rows_world ''api_key.key''" by (simp add: rows_world_def)
  have k: "read_text rows_world ''api_key.key'' = Inr ''ABC123''" by (simp add: rows_world_def)
  have d: "path_exists rows_world ''rows.csv''" by (simp add: rows_world_def)
  have e: "read_csv rows_world ''rows.csv'' = Inr three_rows" by (simp add: rows_world_def)
  note T = unsupported_type_no_requests
             [OF a b, of rows_world "''rows.csv''" "''ABC123''" three_rows]
  have f: "posts (events (main rows_world (Arguments (Upload ''invoice'' ''rows.csv'')))) = []"
    using conjunct1 [OF T] .
  have "main rows_world (Arguments (Upload ''invoice'' ''rows.csv'')) =
              \<lparr>events = [Exists ''api_key.key'', ReadFile ''api_key.key'',
                          Exists ''rows.csv'', ReadCsv ''rows.csv'',
                          LogError (''Unsupported data type: '' @ ''invoice''),
                          Print (''Error: Unsupported data type: '' @ ''invoice''),
                          LogError (''Error: Unsupported data type: '' @ ''invoice'')],
               exit_code = 0\<rparr>"
    using conjunct2 [OF T] c k d e by blast
  then have g: "printed ''Error: Unsupported data type''
        (events (main rows_world (Arguments (Upload ''invoice'' ''rows.csv''))))"
    by (simp add: printed_def)
  from a b c k d e f g show ?thesis by blast
qed

text \<open>
  With the type \<open>invoice\<close> and an upload file that does not exist, the error reported is
  the missing file; nothing about the data type is printed or logged.
\<close>

theorem unsupported_type_counterexample:
  "''invoice'' \<noteq> ''contact'' \<and> ''invoice'' \<noteq> ''company''
   \<and> \<not> printed ''Error: Unsupported data type''
          (events (main abc_world (Arguments (Upload ''invoice'' ''rows.csv''))))
   \<and> LogError ''Unsupported data type: invoice''
         \<notin> set (events (main abc_world (Arguments (Upload ''invoice'' ''rows.csv''))))
   \<and> printed ''Error: CSV file''
          (events (main abc_world (Arguments (Upload ''invoice'' ''rows.csv''))))"
  by (simp add: main_def read_api_key_def upload_branch_def upload_data_def abc_world_def
        printed_def csv_not_found_def)

text \<open>
  C9. \<open>upload_data\<close> checks the file before the type and reads the table before it looks
  at the type: for a missing file it logs and raises \<open>FileNotFoundError\<close> whatever the
  type is; for an existing file its first two events are the existence check and the read
  of the table; and for an existing file read as a table, with an unsupported type, the
  \<open>ValueError\<close> comes after the read.
\<close>

theorem upload_checks_file_first:
  "(\<not> path_exists w file_path \<longrightarrow>
      upload_data w hdrs file_path data_type =
        ([Exists file_path, LogError (csv_not_found file_path)],
         Inl (FileNotFoundError (csv_not_found file_path))))
   \<and> (path_exists w file_path \<longrightarrow>
        take 2 (fst (upload_data w hdrs file_path data_type))
          = [Exists file_path, ReadCsv file_path])
   \<and> (path_exists w file_path \<and> read_csv w file_path = Inr data
        \<and> data_type \<noteq> ''contact'' \<and> data_type \<noteq> ''company'' \<longrightarrow>
        upload_data w hdrs file_path data_type =
          ([Exists file_path, ReadCsv file_path,
            LogError (''Unsupported data type: '' @ data_type)],
           Inl (ValueError (''Unsupported data type: '' @ data_type))))"
  using upload_data_missing [of w file_path hdrs data_type]
    upload_data_reads_first [of w file_path hdrs data_type]
    upload_data_unsupported [of w file_path data data_type hdrs]
  by blast

theorem upload_checks_file_first_witness:
  "\<not> path_exists abc_world ''rows.csv''
   \<and> upload_data abc_world [] ''rows.csv'' ''invoice'' =
        ([Exists ''rows.csv'', LogError ''CSV file 'rows.csv' not found.''],
         Inl (FileNotFoundError ''CSV file 'rows.csv' not found.''))
   \<and> path_exists rows_world ''rows.csv''
   \<and> read_csv rows_world ''rows.csv'' = Inr three_rows
   \<and> upload_data rows_world [] ''rows.csv'' ''invoice'' =
        ([Exists ''rows.csv'', ReadCsv ''rows.csv'',
          LogError ''Unsupported data type: invoice''],
         Inl (ValueError ''Unsupported data type: invoice''))"
proof -
  have a: "\<not> path_exists abc_world ''rows.csv''" by (simp add: abc_world_def)
  have b: "path_exists rows_world ''rows.csv''" by (simp add: rows_world_def)
  have c: "read_csv rows_world ''rows.csv'' = Inr three_rows" by (simp add: rows_world_def)
  have d: "''invoice'' \<noteq> ''contact'' \<and> ''invoice'' \<noteq> ''company''" by simp
  have e: "upload_data abc_world [] ''rows.csv'' ''invoice'' =
        ([Exists ''rows.csv'', LogError ''CSV file 'rows.csv' not found.''],
         Inl (FileNotFoundError ''CSV file 'rows.csv' not found.''))"
    using conjunct1 [OF upload_checks_file_first [of abc_world "''rows.csv''" "[]" "''invoice''" "[]"]] a
    by (simp add: csv_not_found_def)
  have f: "upload_data rows_world [] ''rows.csv'' ''invoice'' =
        ([Exists ''rows.csv'', ReadCsv ''rows.csv'',
          LogError ''Unsupported data type: invoice''],
         Inl (ValueError ''Unsupported data type: invoice''))"
    using conjunct2 [OF conjunct2 [OF upload_checks_file_first
            [of rows_world "''rows.csv''" "[]" "''invoice''" three_rows]]] b c d
    by simp
  from a b c e f show ?thesis by blast
qed

subsection \<open>Creating a contact\<close>

text \<open>
  C4, as the code has it. When the key file is read and the service answers the request of
  \<open>create\<close>: with status 201 and a body that \<open>response.json()\<close> decodes, the process prints
  \<open>Contact created:\<close> and the decoded value; with status 200 it prints
  \<open>Solicitud aceptada:\<close> and the text of the response; nothing else is printed.
\<close>

theorem create_status_messages:
  assumes "path_exists w ''api_key.key''"
    and "read_text w ''api_key.key'' = Inr content"
    and "post w 0 (create_request (api_headers content) name email company) = Inr resp"
  shows "(status_code resp = 201 \<and> json_result resp = Inr v \<longrightarrow>
            events (main w (Arguments (Create name email company))) =
              [Exists ''api_key.key'', ReadFile ''api_key.key'',
               Post (create_request (api_headers content) name email company),
               Print (''Contact created: '' @ py_str w v)])
         \<and> (status_code resp = 200 \<longrightarrow>
            events (main w (Arguments (Create name email company))) =
              [Exists ''api_key.key'', ReadFile ''api_key.key'',
               Post (create_request (api_headers content) name email company),
               Print (''Solicitud aceptada: '' @ body_text resp)])"
  using assms(3)
  by (simp add: main_with_key [OF assms(1,2)] create_branch_def Let_def raise_for_status_def)

theorem create_status_messages_witness:
  "path_exists created_world ''api_key.key''
   \<and> read_text created_world ''api_key.key'' = Inr ''ABC123''
   \<and> status_code (ok_response (BASE_URL @ ''/contacts'')) = 201
   \<and> events (main created_world (Arguments (Create ''Ann'' ''ann@x.org'' ''Acme''))) =
        [Exists ''api_key.key'', ReadFile ''api_key.key'',
         Post (create_request (api_headers ''ABC123'') ''Ann'' ''ann@x.org'' ''Acme''),
         Print ''Contact created: {}'']"
proof -
  have a: "path_exists created_world ''api_key.key''" by (simp add: created_world_def)
  have k: "read_text created_world ''api_key.key'' = Inr ''ABC123''"
    by (simp add: created_world_def)
  have b: "post created_world 0
             (create_request (api_headers ''ABC123'') ''Ann'' ''ann@x.org'' ''Acme'')
           = Inr (ok_response (BASE_URL @ ''/contacts''))"
    by (simp add: created_world_def create_request_def)
  have c: "status_code (ok_response (BASE_URL @ ''/contacts'')) = 201
           \<and> json_result (ok_response (BASE_URL @ ''/contacts'')) = Inr (PDict [])"
    by (simp add: ok_response_def)
  have d: "py_str created_world (PDict []) = ''{}''" by (simp add: created_world_def)
  show ?thesis
    using a k c d conjunct1 [OF create_status_messages [OF a k b, of "PDict []"]] by simp
qed

text \<open>
  With status 201 and an empty body, \<open>response.json()\<close> raises inside the \<open>try\<close> block
  before anything is printed: the output is the error, not \<open>Contact created\<close>.
\<close>

theorem create_201_counterexample:
  "path_exists empty_201_world ''api_key.key''
   \<and> read_text empty_201_world ''api_key.key'' = Inr ''ABC123''
   \<and> post empty_201_world 0
         (create_request (api_headers ''ABC123'') ''Ann'' ''ann@x.org'' ''Acme'')
       = Inr (undecodable_201 (BASE_URL @ ''/contacts''))
   \<and> status_code (undecodable_201 (BASE_URL @ ''/contacts'')) = 201
   \<and> \<not> printed ''Contact created''
          (events (main empty_201_world (Arguments (Create ''Ann'' ''ann@x.org'' ''Acme''))))
   \<and> printed ''An error occurred: Expecting value''
          (events (main empty_201_world (Arguments (Create ''Ann'' ''ann@x.org'' ''Acme''))))"
  by (simp add: main_def read_api_key_def create_branch_def create_request_def Let_def
        raise_for_status_def empty_201_world_def undecodable_201_def printed_def)


subsection \<open>Failures of the remote calls\<close>

lemma exit_code_upload_branch:
  assumes "path_exists w f \<longrightarrow> (case read_csv w f of Inl e \<Rightarrow> caught_by_upload e | Inr _ \<Rightarrow> True)"
  shows "exit_code (upload_branch w hdrs t f) = 0"
proof (cases "path_exists w f")
  case False
  then show ?thesis by (simp add: upload_branch_def upload_data_def)
next
  case True
  with assms show ?thesis
    by (auto simp: upload_branch_def upload_data_def split: sum.splits)
qed

lemma exit_code_dispatch:
  assumes "\<forall>t f. cmd = Upload t f \<and> path_exists w f \<longrightarrow>
             (case read_csv w f of Inl e \<Rightarrow> caught_by_upload e | Inr _ \<Rightarrow> True)"
  shows "exit_code (dispatch w hdrs cmd) = 0"
proof (cases cmd)
  case (Upload t f)
  with assms exit_code_upload_branch [of w f hdrs t] show ?thesis by simp
qed simp_all

lemma company_branch_failure:
  assumes "post w 0 (company_request hdrs q) = Inl e
           \<or> (\<exists>resp. post w 0 (company_request hdrs q) = Inr resp
                       \<and> raise_for_status resp = Some e)"
  shows "company_branch w hdrs q =
           [Post (company_request hdrs q), Print (error_message e), LogError (error_message e)]"
  using assms by (auto simp: company_branch_def Let_def)

lemma create_branch_failure:
  assumes "post w 0 (create_request hdrs n m c) = Inl e
           \<or> (\<exists>resp. post w 0 (create_request hdrs n m c) = Inr resp
                       \<and> raise_for_status resp = Some e)"
  shows "create_branch w hdrs n m c =
           [Post (create_request hdrs n m c), Print (error_message e), LogError (error_message e)]"
  using assms by (auto simp: create_branch_def Let_def)

lemma enrich_branch_exception:
  assumes "post w 0 (enrich_request hdrs ds) = Inl e"
  shows "enrich_branch w hdrs ds =
           [Post (enrich_request hdrs ds), Print (''Error: '' @ str_exn e),
            LogError (''Error: '' @ str_exn e)]"
  using assms by (simp add: enrich_branch_def enrich_domains_def Let_def)

lemma enrich_branch_status:
  assumes "post w 0 (enrich_request hdrs ds) = Inr resp" and "status_code resp \<noteq> 200"
  shows "enrich_branch w hdrs ds =
           [Post (enrich_request hdrs ds), Print (''Error: '' @ str_int (status_code resp)),
            Print (body_text resp)]"
  using assms by (simp add: enrich_branch_def enrich_domains_def Let_def)

lemma upload_branch_failure:
  assumes "path_exists w f" and "read_csv w f = Inr data"
    and "t = ''contact'' \<or> t = ''company''" and "i < length data"
    and "post w i \<lparr>url = upload_url t, headers = hdrs, json = PDict (data ! i)\<rparr> = Inl e
         \<or> (\<exists>resp. post w i \<lparr>url = upload_url t, headers = hdrs, json = PDict (data ! i)\<rparr>
                       = Inr resp \<and> raise_for_status resp = Some e)"
  shows "Print (error_message e) \<in> set (events (upload_branch w hdrs t f))
         \<and> LogError (error_message e) \<in> set (events (upload_branch w hdrs t f))"
proof -
  from upload_rows_failure [of i data w 0 "upload_url t" hdrs e] assms(4,5)
  obtain pre suf where
    "upload_rows w (upload_url t) hdrs 0 data =
       pre @ [Post \<lparr>url = upload_url t, headers = hdrs, json = PDict (data ! i)\<rparr>,
              LogError (error_message e), Print (error_message e)] @ suf"
    by auto
  then show ?thesis
    by (simp add: upload_branch_def upload_data_supported [OF assms(1,2,3)])
qed

text \<open>
  C6, as the code has it. When the key file exists and \<open>read()\<close> returns its content, and
  reading an existing upload file raises nothing that the \<open>upload\<close> branch does not catch,
  the process ends with status 0 whatever the service does. A request that raises, or whose answer \<open>raise_for_status\<close>
  rejects, is printed and logged by the \<open>company\<close> and \<open>create\<close> branches and, for each row,
  by the upload. In the \<open>enrich\<close> branch a request that raises is printed and logged; an
  answer with a status other than 200 is printed (status and text) and nothing is logged.
\<close>

theorem api_failures_not_fatal:
  assumes "path_exists w ''api_key.key''"
    and "read_text w ''api_key.key'' = Inr content"
    and "\<forall>t f. cmd = Upload t f \<and> path_exists w f \<longrightarrow>
           (case read_csv w f of Inl e \<Rightarrow> caught_by_upload e | Inr _ \<Rightarrow> True)"
  shows "exit_code (main w (Arguments cmd)) = 0
    \<and> (\<forall>q e. cmd = Company q
          \<and> (post w 0 (company_request (api_headers content) q) = Inl e
             \<or> (\<exists>resp. post w 0 (company_request (api_headers content) q) = Inr resp
                        \<and> raise_for_status resp = Some e))
        \<longrightarrow> events (main w (Arguments cmd)) =
              [Exists ''api_key.key'', ReadFile ''api_key.key'',
               Post (company_request (api_headers content) q),
               Print (error_message e), LogError (error_message e)])
    \<and> (\<forall>n m c e. cmd = Create n m c
          \<and> (post w 0 (create_request (api_headers content) n m c) = Inl e
             \<or> (\<exists>resp. post w 0 (create_request (api_headers content) n m c) = Inr resp
                        \<and> raise_for_status resp = Some e))
        \<longrightarrow> events (main w (Arguments cmd)) =
              [Exists ''api_key.key'', ReadFile ''api_key.key'',
               Post (create_request (api_headers content) n m c),
               Print (error_message e), LogError (error_message e)])
    \<and> (\<forall>t f data i e. cmd = Upload t f \<and> path_exists w f \<and> read_csv w f = Inr data
          \<and> (t = ''contact'' \<or> t = ''company'') \<and> i < length data
          \<and> (post w i \<lparr>url = upload_url t, headers = api_headers content, json = PDict (data ! i)\<rparr>
                = Inl e
             \<or> (\<exists>resp. post w i \<lparr>url = upload_url t, headers = api_headers content,
                                   json = PDict (data ! i)\<rparr> = Inr resp
                        \<and> raise_for_status resp = Some e))
        \<longrightarrow> Print (error_message e) \<in> set (events (main w (Arguments cmd)))
            \<and> LogError (error_message e) \<in> set (events (main w (Arguments cmd))))
    \<and> (\<forall>ds e. cmd = Enrich ds \<and> post w 0 (enrich_request (api_headers content) ds) = Inl e
        \<longrightarrow> events (main w (Arguments cmd)) =
              [Exists ''api_key.key'', ReadFile ''api_key.key'',
               Post (enrich_request (api_headers content) ds),
               Print (''Error: '' @ str_exn e), LogError (''Error: '' @ str_exn e)])
    \<and> (\<forall>ds resp. cmd = Enrich ds \<and> post w 0 (enrich_request (api_headers content) ds) = Inr resp
          \<and> status_code resp \<noteq> 200
        \<longrightarrow> events (main w (Arguments cmd)) =
              [Exists ''api_key.key'', ReadFile ''api_key.key'',
               Post (enrich_request (api_headers content) ds),
               Print (''Error: '' @ str_int (status_code resp)), Print (body_text resp)])"
proof -
  note M = main_with_key [OF assms(1,2)]
  have exit: "exit_code (main w (Arguments cmd)) = 0"
    using exit_code_dispatch [OF assms(3), of "api_headers content"] by (simp add: M)
  have company: "events (main w (Arguments cmd)) =
              [Exists ''api_key.key'', ReadFile ''api_key.key'',
               Post (company_request (api_headers content) q),
               Print (error_message e), LogError (error_message e)]"
    if "cmd = Company q"
      and "post w 0 (company_request (api_headers content) q) = Inl e
             \<or> (\<exists>resp. post w 0 (company_request (api_headers content) q) = Inr resp
                        \<and> raise_for_status resp = Some e)"
    for q e
    using that(1) company_branch_failure [OF that(2)] by (simp add: M)
  have create: "events (main w (Arguments cmd)) =
              [Exists ''api_key.key'', ReadFile ''api_key.key'',
               Post (create_request (api_headers content) n m c),
               Print (error_message e), LogError (error_message e)]"
    if "cmd = Create n m c"
      and "post w 0 (create_request (api_headers content) n m c) = Inl e
             \<or> (\<exists>resp. post w 0 (create_request (api_headers content) n m c) = Inr resp
                        \<and> raise_for_status resp = Some e)"
    for n m c e
    using that(1) create_branch_failure [OF that(2)] by (simp add: M)
  have upload: "Print (error_message e) \<in> set (events (main w (Arguments cmd)))
            \<and> LogError (error_message e) \<in> set (events (main w (Arguments cmd)))"
    if "cmd = Upload t f" and "path_exists w f" and "read_csv w f = Inr data"
      and "t = ''contact'' \<or> t = ''company''" and "i < length data"
      and "post w i \<lparr>url = upload_url t, headers = api_headers content, json = PDict (data ! i)\<rparr>
                = Inl e
             \<or> (\<exists>resp. post w i \<lparr>url = upload_url t, headers = api_headers content,
                                   json = PDict (data ! i)\<rparr> = Inr resp
                        \<and> raise_for_status resp = Some e)"
    for t f data i e
    using that(1) upload_branch_failure [OF that(2,3,4,5,6)] by (simp add: M)
  have enrich_exn: "events (main w (Arguments cmd)) =
              [Exists ''api_key.key'', ReadFile ''api_key.key'',
               Post (enrich_request (api_headers content) ds),
               Print (''Error: '' @ str_exn e), LogError (''Error: '' @ str_exn e)]"
    if "cmd = Enrich ds" and "post w 0 (enrich_request (api_headers content) ds) = Inl e"
    for ds e
    using that(1) enrich_branch_exception [OF that(2)] by (simp add: M)
  have enrich_status: "events (main w (Arguments cmd)) =
              [Exists ''api_key.key'', ReadFile ''api_key.key'',
               Post (enrich_request (api_headers content) ds),
               Print (''Error: '' @ str_int (status_code resp)), Print (body_text resp)]"
    if "cmd = Enrich ds" and "post w 0 (enrich_request (api_headers content) ds) = Inr resp"
      and "status_code resp \<noteq> 200"
    for ds resp
    using that(1) enrich_branch_status [OF that(2,3)] by (simp add: M)
  show ?thesis
    apply (intro conjI allI impI)
    subgoal by (rule exit)
    subgoal for q e using company [of q e] by blast
    subgoal for n m c e using create [of n m c e] by blast
    subgoal for t f data i e using upload [of t f data i e] by blast
    subgoal for t f data i e using upload [of t f data i e] by blast
    subgoal for ds e using enrich_exn [of ds e] by blast
    subgoal for ds resp using enrich_status [of ds resp] by blast
    done
qed


theorem api_failures_not_fatal_witness:
  "path_exists failing_world ''api_key.key''
   \<and> read_text failing_world ''api_key.key'' = Inr ''ABC123''
   \<and> path_exists failing_world ''empty.csv''
   \<and> read_csv failing_world ''empty.csv'' = Inl (ValueError ''No columns to parse from file'')
   \<and> caught_by_upload (ValueError ''No columns to parse from file'')
   \<and> exit_code (main failing_world (Arguments (Upload ''contact'' ''empty.csv''))) = 0
   \<and> post failing_world 0 (company_request (api_headers ''ABC123'') ''Acme'')
       = Inr (error_500 (BASE_URL @ ''/accounts''))
   \<and> exit_code (main failing_world (Arguments (Company ''Acme''))) = 0
   \<and> events (main failing_world (Arguments (Company ''Acme''))) =
        [Exists ''api_key.key'', ReadFile ''api_key.key'',
         Post (company_request (api_headers ''ABC123'') ''Acme''),
         Print ''HTTP error occurred: 500 Server Error: Internal Server Error for url: https://api.apollo.io/v1/accounts'',
         LogError ''HTTP error occurred: 500 Server Error: Internal Server Error for url: https://api.apollo.io/v1/accounts'']"
proof -
  have key: "path_exists failing_world ''api_key.key''"
    by (simp add: failing_world_def)
  have kt: "read_text failing_world ''api_key.key'' = Inr ''ABC123''"
    by (simp add: failing_world_def)
  have fl: "path_exists failing_world ''empty.csv''"
    by (simp add: failing_world_def)
  have rd: "read_csv failing_world ''empty.csv'' = Inl (ValueError ''No columns to parse from file'')"
    by (simp add: failing_world_def)
  have caught: "caught_by_upload (ValueError ''No columns to parse from file'')"
    by simp
  have up: "\<forall>t f. Upload ''contact'' ''empty.csv'' = Upload t f \<and> path_exists failing_world f \<longrightarrow>
           (case read_csv failing_world f of Inl e \<Rightarrow> caught_by_upload e | Inr _ \<Rightarrow> True)"
    using rd by simp
  have co: "\<forall>t f. Company ''Acme'' = Upload t f \<and> path_exists failing_world f \<longrightarrow>
           (case read_csv failing_world f of Inl e \<Rightarrow> caught_by_upload e | Inr _ \<Rightarrow> True)"
    by simp
  have answer: "post failing_world 0 (company_request (api_headers ''ABC123'') ''Acme'')
       = Inr (error_500 (BASE_URL @ ''/accounts''))"
    by (simp add: failing_world_def company_request_def)
  have rejected: "raise_for_status (error_500 (BASE_URL @ ''/accounts'')) =
       Some (HTTPError ''500 Server Error: Internal Server Error for url: https://api.apollo.io/v1/accounts'')"
    by (simp add: raise_for_status_def error_500_def str_int_def str_nat.simps BASE_URL_def)
  have e1: "exit_code (main failing_world (Arguments (Upload ''contact'' ''empty.csv''))) = 0"
    using conjunct1 [OF api_failures_not_fatal [OF key kt up]] .
  note T = api_failures_not_fatal [OF key kt co]
  have e2: "exit_code (main failing_world (Arguments (Company ''Acme''))) = 0"
    using conjunct1 [OF T] .
  have "events (main failing_world (Arguments (Company ''Acme''))) =
        [Exists ''api_key.key'', ReadFile ''api_key.key'',
         Post (company_request (api_headers ''ABC123'') ''Acme''),
         Print (error_message (HTTPError ''500 Server Error: Internal Server Error for url: https://api.apollo.io/v1/accounts'')),
         LogError (error_message (HTTPError ''500 Server Error: Internal Server Error for url: https://api.apollo.io/v1/accounts''))]"
    using conjunct1 [OF conjunct2 [OF T]] answer rejected by blast
  then have ev: "events (main failing_world (Arguments (Company ''Acme''))) =
        [Exists ''api_key.key'', ReadFile ''api_key.key'',
         Post (company_request (api_headers ''ABC123'') ''Acme''),
         Print ''HTTP error occurred: 500 Server Error: Internal Server Error for url: https://api.apollo.io/v1/accounts'',
         LogError ''HTTP error occurred: 500 Server Error: Internal Server Error for url: https://api.apollo.io/v1/accounts'']"
    by simp
  from key kt fl rd caught e1 answer e2 ev show ?thesis by blast
qed

text \<open>
  The service answers the request of \<open>enrich\<close> with status 500: the status is printed and
  no log record is written. An upload whose file is a directory ends with status 1. And
  with a key file that exists and cannot be read, every command ends with status 1.
\<close>

theorem api_failures_counterexample:
  "path_exists failing_world ''api_key.key''
   \<and> read_text failing_world ''api_key.key'' = Inr ''ABC123''
   \<and> post failing_world 0 (enrich_request (api_headers ''ABC123'') [''example.com''])
       = Inr (error_500 ''https://api.apollo.io/api/v1/organizations/bulk_enrich'')
   \<and> status_code (error_500 ''https://api.apollo.io/api/v1/organizations/bulk_enrich'') = 500
   \<and> printed ''Error: 500'' (events (main failing_world (Arguments (Enrich [''example.com'']))))
   \<and> \<not> list_ex is_log (events (main failing_world (Arguments (Enrich [''example.com'']))))
   \<and> path_exists failing_world ''data''
   \<and> read_csv failing_world ''data'' = Inl (OtherException ''[Errno 21] Is a directory'')
   \<and> exit_code (main failing_world (Arguments (Upload ''contact'' ''data''))) = 1
   \<and> path_exists locked_key_world ''api_key.key''
   \<and> read_text locked_key_world ''api_key.key''
       = Inl (OtherException ''[Errno 13] Permission denied'')
   \<and> exit_code (main locked_key_world (Arguments (Company ''Acme''))) = 1"
  by (simp add: main_def read_api_key_def enrich_branch_def enrich_domains_def
        enrich_request_def Let_def upload_branch_def upload_data_def failing_world_def
        locked_key_world_def error_500_def printed_def str_int_def str_nat.simps
        api_headers_def)


end
